theory Spec2Isabelle
  imports Complex_Main
begin

section \<open>JavaScript values\<close>

text \<open>
  The program handles documents parsed from JSON. A value is \<open>undefined\<close>, \<open>null\<close>, a
  boolean, a number, a string, an array or an object. An object is the list of its own
  properties in the order in which JavaScript enumerates them; a property read takes the
  first binding of the name. A plain object also inherits the members of
  \<open>Object.prototype\<close>; these and the other built-in functions and objects of the engine are
  the values \<open>Host h\<close>, named by their path. No document contains one, but the program can
  read one out of an object that it has built.
  Strings are the UTF-8 bytes of the JavaScript string: ASCII text is written as it is in
  the source, Japanese text byte by byte. Substring tests on well-formed text agree with
  the tests on UTF-16 code units that JavaScript makes.
\<close>

datatype jsnum = NaN | Infinity bool | Finite real

datatype jsval =
    Undefined
  | Null
  | Bool bool
  | Num jsnum
  | Str string
  | Arr "jsval list"
  | Obj "(string \<times> jsval) list"
  | Host string

text \<open>An exception carries its \<open>message\<close>. \<open>TypeError\<close> is raised by the engine, \<open>Error\<close>
  by \<open>throw new Error(...)\<close>.\<close>

datatype jserror = TypeError string | Error string

fun message :: "jserror \<Rightarrow> string" where
  "message (TypeError m) = m"
| "message (Error m) = m"

text \<open>
  What the language and its library provide and the repository does not define:
  \<open>String.prototype.toLowerCase\<close> (Unicode case mapping), \<open>parseFloat\<close> applied to a
  value, the conversion of a number and of a built-in to a string, the read of a property
  of a built-in, a string, a number, a boolean or an array (\<open>hostGet\<close>, which may raise),
  and the clock: \<open>now E k\<close> is the result of the \<open>k\<close>-th evaluation of
  \<open>new Date().toISOString()\<close> whose result reaches the output (console logging is not
  modelled, so its clock reads are not counted).
\<close>

record js_env =
  toLowerCase :: "string \<Rightarrow> string"
  parseFloat :: "jsval \<Rightarrow> jsnum"
  numberToString :: "jsnum \<Rightarrow> string"
  hostToString :: "string \<Rightarrow> string"
  hostGet :: "jsval \<Rightarrow> string \<Rightarrow> jserror + jsval"
  now :: "nat \<Rightarrow> string"

text \<open>Truthiness (\<open>ToBoolean\<close>) and the operator \<open>a || b\<close>.\<close>

fun truthy :: "jsval \<Rightarrow> bool" where
  "truthy Undefined = False"
| "truthy Null = False"
| "truthy (Bool b) = b"
| "truthy (Num NaN) = False"
| "truthy (Num (Infinity s)) = True"
| "truthy (Num (Finite r)) = (r \<noteq> 0)"
| "truthy (Str s) = (s \<noteq> [])"
| "truthy (Arr xs) = True"
| "truthy (Obj kvs) = True"
| "truthy (Host h) = True"

definition jsor :: "jsval \<Rightarrow> jsval \<Rightarrow> jsval" where
  "jsor a b = (if truthy a then a else b)"

definition isNullish :: "jsval \<Rightarrow> bool" where
  "isNullish v = (v = Undefined \<or> v = Null)"

definition quote :: string where
  "quote = [CHR 0x27]"

text \<open>The message of the \<open>TypeError\<close> that Node raises for \<open>v.name\<close> when \<open>v\<close> is
  \<open>undefined\<close> or \<open>null\<close>.\<close>

definition cannotRead :: "jsval \<Rightarrow> string \<Rightarrow> jserror" where
  "cannotRead v name =
     TypeError (''Cannot read properties of ''
       @ (if v = Null then ''null'' else ''undefined'')
       @ '' (reading '' @ quote @ name @ quote @ '')'')"

text \<open>
  \<open>v.name\<close> and \<open>v[name]\<close> for the names that the program writes out or takes from
  \<open>Object.keys\<close>: a \<open>TypeError\<close> on \<open>undefined\<close> and \<open>null\<close>, the own property of an object, and
  \<open>undefined\<close> where there is none. These names are upper-case field names, the six
  category names and names that start with \<open>@\<close> or \<open>$\<close>; no built-in prototype has a member
  of such a name, so nothing is inherited under them. The one read under a computed name,
  at line 276, is \<open>getMember\<close> below.
\<close>

fun getProp :: "jsval \<Rightarrow> string \<Rightarrow> jserror + jsval" where
  "getProp Undefined name = Inl (cannotRead Undefined name)"
| "getProp Null name = Inl (cannotRead Null name)"
| "getProp (Obj kvs) name = Inr (case map_of kvs name of None \<Rightarrow> Undefined | Some v \<Rightarrow> v)"
| "getProp v name = Inr Undefined"

text \<open>\<open>v?.name\<close>: \<open>undefined\<close> when \<open>v\<close> is \<open>undefined\<close> or \<open>null\<close>, the property otherwise.\<close>

fun optProp :: "jsval \<Rightarrow> string \<Rightarrow> jsval" where
  "optProp (Obj kvs) name = (case map_of kvs name of None \<Rightarrow> Undefined | Some v \<Rightarrow> v)"
| "optProp v name = Undefined"

text \<open>\<open>Array.isArray(v) ? v : [v]\<close>\<close>

fun coerceList :: "jsval \<Rightarrow> jsval list" where
  "coerceList (Arr xs) = xs"
| "coerceList v = [v]"

text \<open>
  An array index is the canonical decimal form of a number below \<open>2^32 - 1\<close>. JavaScript
  enumerates the keys of an object that are array indices first, in ascending order, and
  the other keys after them in the order of their creation.
\<close>

definition digitValue :: "char \<Rightarrow> nat option" where
  "digitValue c =
     map_of [(CHR ''0'', 0), (CHR ''1'', 1), (CHR ''2'', 2), (CHR ''3'', 3), (CHR ''4'', 4),
             (CHR ''5'', 5), (CHR ''6'', 6), (CHR ''7'', 7), (CHR ''8'', 8), (CHR ''9'', 9)] c"

fun decimalValue :: "nat \<Rightarrow> string \<Rightarrow> nat option" where
  "decimalValue n [] = Some n"
| "decimalValue n (c # cs) =
     (case digitValue c of None \<Rightarrow> None | Some d \<Rightarrow> decimalValue (10 * n + d) cs)"

definition arrayIndex :: "string \<Rightarrow> nat option" where
  "arrayIndex s =
     (case s of
        [] \<Rightarrow> None
      | c # cs \<Rightarrow>
          if c = CHR ''0'' \<and> cs \<noteq> [] then None
          else (case decimalValue 0 s of
                  None \<Rightarrow> None
                | Some n \<Rightarrow> if n < 4294967295 then Some n else None))"

fun insertIndex ::
  "nat \<Rightarrow> string \<Rightarrow> jsval \<Rightarrow> (string \<times> jsval) list \<Rightarrow> (string \<times> jsval) list" where
  "insertIndex n name v [] = [(name, v)]"
| "insertIndex n name v ((k, w) # kvs) =
     (case arrayIndex k of
        None \<Rightarrow> (name, v) # (k, w) # kvs
      | Some m \<Rightarrow>
          if m < n then (k, w) # insertIndex n name v kvs else (name, v) # (k, w) # kvs)"

text \<open>
  \<open>obj[name] = v\<close> on the property list of a plain object: an existing property keeps its
  place, a new one takes its place in the enumeration order. (The name \<open>__proto__\<close> is
  special in JavaScript: an assignment to it replaces the prototype of the object and adds
  no property. The statements below about the contents of such objects are made for
  documents that do not use this name as a key.)
\<close>

definition setProp :: "(string \<times> jsval) list \<Rightarrow> string \<Rightarrow> jsval \<Rightarrow> (string \<times> jsval) list" where
  "setProp kvs name v =
     (if name \<in> set (map fst kvs)
      then map (\<lambda>kw. if fst kw = name then (name, v) else kw) kvs
      else (case arrayIndex name of
              None \<Rightarrow> kvs @ [(name, v)]
            | Some n \<Rightarrow> insertIndex n name v kvs))"

text \<open>
  The members that a plain object inherits from \<open>Object.prototype\<close>: functions, and under
  \<open>__proto__\<close> the prototype itself.
\<close>

definition objectPrototypeNames :: "string list" where
  "objectPrototypeNames =
     [''constructor'', ''__defineGetter__'', ''__defineSetter__'', ''hasOwnProperty'',
      ''__lookupGetter__'', ''__lookupSetter__'', ''isPrototypeOf'', ''propertyIsEnumerable'',
      ''toString'', ''valueOf'', ''__proto__'', ''toLocaleString'']"

definition inheritedMember :: "string \<Rightarrow> jsval" where
  "inheritedMember name =
     (if name = ''constructor'' then Host ''Object''
      else if name = ''__proto__'' then Host ''Object.prototype''
      else Host (''Object.prototype.'' @ name))"

text \<open>\<open>obj[name]\<close> for a plain object and any name: the own property, else the inherited
  member, else \<open>undefined\<close>.\<close>

definition plainGet :: "(string \<times> jsval) list \<Rightarrow> string \<Rightarrow> jsval" where
  "plainGet kvs name =
     (case map_of kvs name of
        Some v \<Rightarrow> v
      | None \<Rightarrow> if name \<in> set objectPrototypeNames then inheritedMember name else Undefined)"

text \<open>\<open>xs.join(',')\<close> on strings.\<close>

fun joinComma :: "string list \<Rightarrow> string" where
  "joinComma [] = []"
| "joinComma [s] = s"
| "joinComma (s # t # ss) = s @ '','' @ joinComma (t # ss)"

text \<open>
  \<open>ToString\<close>, which turns a value used as a property name into the name. An array is
  joined with commas, \<open>undefined\<close> and \<open>null\<close> elements giving the empty string.
\<close>

fun toStr :: "js_env \<Rightarrow> jsval \<Rightarrow> string" where
  "toStr E Undefined = ''undefined''"
| "toStr E Null = ''null''"
| "toStr E (Bool b) = (if b then ''true'' else ''false'')"
| "toStr E (Num n) = numberToString E n"
| "toStr E (Str s) = s"
| "toStr E (Arr xs) =
     joinComma (map (\<lambda>x. if x = Undefined \<or> x = Null then [] else toStr E x) xs)"
| "toStr E (Obj kvs) = ''[object Object]''"
| "toStr E (Host h) = hostToString E h"

text \<open>
  \<open>v[name]\<close> for any value and any name: a \<open>TypeError\<close> on \<open>undefined\<close> and \<open>null\<close>, \<open>plainGet\<close> on
  an object, and what the engine gives on a built-in, a string, a number, a boolean or an
  array.
\<close>

fun getMember :: "js_env \<Rightarrow> jsval \<Rightarrow> string \<Rightarrow> jserror + jsval" where
  "getMember E Undefined name = Inl (cannotRead Undefined name)"
| "getMember E Null name = Inl (cannotRead Null name)"
| "getMember E (Obj kvs) name = Inr (plainGet kvs name)"
| "getMember E v name = hostGet E v name"

text \<open>\<open>s.startsWith(p)\<close> and \<open>s.includes(k)\<close>.\<close>

definition startsWith :: "string \<Rightarrow> string \<Rightarrow> bool" where
  "startsWith s p = (take (length p) s = p)"

fun str_includes :: "string \<Rightarrow> string \<Rightarrow> bool" where
  "str_includes [] k = (k = [])"
| "str_includes (c # cs) k = (startsWith (c # cs) k \<or> str_includes cs k)"

section \<open>determineDataType\<close>

text \<open>The Japanese keywords of the source, as UTF-8.\<close>

definition kw_jinkou :: string where
  "kw_jinkou = [CHR 0xE4, CHR 0xBA, CHR 0xBA, CHR 0xE5, CHR 0x8F, CHR 0xA3]"

definition kw_keizai :: string where
  "kw_keizai = [CHR 0xE7, CHR 0xB5, CHR 0x8C, CHR 0xE6, CHR 0xB8, CHR 0x88]"

definition kw_roudou :: string where
  "kw_roudou = [CHR 0xE5, CHR 0x8A, CHR 0xB4, CHR 0xE5, CHR 0x83, CHR 0x8D]"

definition kw_koyou :: string where
  "kw_koyou = [CHR 0xE9, CHR 0x9B, CHR 0x87, CHR 0xE7, CHR 0x94, CHR 0xA8]"

definition kw_sangyou :: string where
  "kw_sangyou = [CHR 0xE7, CHR 0x94, CHR 0xA3, CHR 0xE6, CHR 0xA5, CHR 0xAD]"

definition kw_kyouiku :: string where
  "kw_kyouiku = [CHR 0xE6, CHR 0x95, CHR 0x99, CHR 0xE8, CHR 0x82, CHR 0xB2]"

definition kw_iryou :: string where
  "kw_iryou = [CHR 0xE5, CHR 0x8C, CHR 0xBB, CHR 0xE7, CHR 0x99, CHR 0x82]"

definition kw_kankyou :: string where
  "kw_kankyou = [CHR 0xE7, CHR 0x92, CHR 0xB0, CHR 0xE5, CHR 0xA2, CHR 0x83]"

text \<open>The chain of \<open>if\<close> statements of \<open>determineDataType\<close>, on the lower-cased name.\<close>

definition classifyName :: "string \<Rightarrow> string" where
  "classifyName name =
     (if str_includes name kw_jinkou \<or> str_includes name ''population'' then ''population''
      else if str_includes name kw_keizai \<or> str_includes name ''gdp'' \<or> str_includes name kw_keizai
        then ''economic''
      else if str_includes name kw_roudou \<or> str_includes name kw_koyou \<or> str_includes name ''labor''
        then ''labor''
      else if str_includes name kw_sangyou \<or> str_includes name ''industry'' then ''industry''
      else if str_includes name kw_kyouiku \<or> str_includes name ''education'' then ''education''
      else if str_includes name kw_iryou \<or> str_includes name ''health'' then ''health''
      else if str_includes name kw_kankyou \<or> str_includes name ''environment'' then ''environment''
      else ''general'')"

text \<open>
  \<open>determineDataType(statName)\<close>. The call \<open>statName.toLowerCase()\<close> raises a \<open>TypeError\<close>
  when \<open>statName\<close> is not a string.
\<close>

fun determineDataType :: "js_env \<Rightarrow> jsval \<Rightarrow> jserror + string" where
  "determineDataType E (Str s) = Inr (classifyName (toLowerCase E s))"
| "determineDataType E Undefined = Inl (cannotRead Undefined ''toLowerCase'')"
| "determineDataType E Null = Inl (cannotRead Null ''toLowerCase'')"
| "determineDataType E v = Inl (TypeError ''statName.toLowerCase is not a function'')"

text \<open>
  The classifier as the specification words it: an ordered table of keyword sets, one per
  category; the first category with a keyword that occurs in the lower-cased title wins,
  and \<open>general\<close> is the answer when none does.
\<close>

definition keywordTable :: "(string \<times> string list) list" where
  "keywordTable =
     [(''population'', [kw_jinkou, ''population'']),
      (''economic'', [kw_keizai, ''gdp'']),
      (''labor'', [kw_roudou, kw_koyou, ''labor'']),
      (''industry'', [kw_sangyou, ''industry'']),
      (''education'', [kw_kyouiku, ''education'']),
      (''health'', [kw_iryou, ''health'']),
      (''environment'', [kw_kankyou, ''environment''])]"

fun firstMatch :: "(string \<times> string list) list \<Rightarrow> string \<Rightarrow> string" where
  "firstMatch [] name = ''general''"
| "firstMatch ((cat, kws) # rest) name =
     (if list_ex (str_includes name) kws then cat else firstMatch rest name)"

definition spec_classify :: "js_env \<Rightarrow> string \<Rightarrow> string" where
  "spec_classify E title = firstMatch keywordTable (toLowerCase E title)"

definition dataTypes :: "string list" where
  "dataTypes = [''population'', ''economic'', ''labor'', ''industry'', ''education'',
     ''health'', ''environment'', ''general'']"

section \<open>normalizeStatisticalData\<close>

text \<open>
  The classification dictionary, lines 250 to 262 of the source. The callback of \<open>reduce\<close>:
  \<^verbatim>\<open>acc[item['@code']] = item['@name']; return acc;\<close>
\<close>

fun reduceClass ::
  "js_env \<Rightarrow> (string \<times> jsval) list \<Rightarrow> jsval list \<Rightarrow> jserror + (string \<times> jsval) list" where
  "reduceClass E acc [] = Inr acc"
| "reduceClass E acc (item # items) =
     (case getProp item ''@code'' of
        Inl e \<Rightarrow> Inl e
      | Inr code \<Rightarrow>
          (case getProp item ''@name'' of
             Inl e \<Rightarrow> Inl e
           | Inr name \<Rightarrow> reduceClass E (setProp acc (toStr E code) name) items))"

text \<open>
  The callback of \<open>classes.forEach\<close>:
  \<^verbatim>\<open>if (cls.CLASS) { classItems = Array.isArray(cls.CLASS) ? cls.CLASS : [cls.CLASS];
      classObj[cls['@id']] = classItems.reduce(..., {}); }\<close>
\<close>

fun forEachClass ::
  "js_env \<Rightarrow> (string \<times> jsval) list \<Rightarrow> jsval list \<Rightarrow> jserror + (string \<times> jsval) list" where
  "forEachClass E classObj [] = Inr classObj"
| "forEachClass E classObj (cls # rest) =
     (case getProp cls ''CLASS'' of
        Inl e \<Rightarrow> Inl e
      | Inr c \<Rightarrow>
          if truthy c then
            (case getProp cls ''@id'' of
               Inl e \<Rightarrow> Inl e
             | Inr cid \<Rightarrow>
                 (case reduceClass E [] (coerceList c) of
                    Inl e \<Rightarrow> Inl e
                  | Inr acc \<Rightarrow> forEachClass E (setProp classObj (toStr E cid) (Obj acc)) rest))
          else forEachClass E classObj rest)"

text \<open>
  \<^verbatim>\<open>const classObj = {};
  if (classInf?.CLASS_OBJ) { classes = Array.isArray(...) ? ... : [...]; classes.forEach(...) }\<close>
\<close>

definition buildClassObj :: "js_env \<Rightarrow> jsval \<Rightarrow> jserror + (string \<times> jsval) list" where
  "buildClassObj E classInf =
     (if truthy (optProp classInf ''CLASS_OBJ'')
      then forEachClass E [] (coerceList (optProp classInf ''CLASS_OBJ''))
      else Inr [])"

text \<open>
  Line 276, \<^verbatim>\<open>classObj[classId]?.[code] || code\<close>. Both reads go through the prototype:
  \<open>classObj[classId]\<close> is a group of the index, an inherited member or \<open>undefined\<close>, and the
  read of \<open>[code]\<close> on an inherited member is the engine's and may raise.
\<close>

definition resolveCode ::
  "js_env \<Rightarrow> (string \<times> jsval) list \<Rightarrow> string \<Rightarrow> jsval \<Rightarrow> jserror + jsval" where
  "resolveCode E classObj classId code =
     (if isNullish (plainGet classObj classId) then Inr code
      else (case getMember E (plainGet classObj classId) (toStr E code) of
              Inl e \<Rightarrow> Inl e
            | Inr label \<Rightarrow> Inr (jsor label code)))"

text \<open>
  \<open>Object.keys(valueItem)\<close>. The keys of an array or a string are decimal indices, which
  the test \<open>key.startsWith('@')\<close> below discards; they are left out here. A built-in has no
  enumerable key.
\<close>

fun objectKeys :: "jsval \<Rightarrow> string list" where
  "objectKeys (Obj kvs) = map fst kvs"
| "objectKeys v = []"

text \<open>
  Lines 271 to 278:
  \<^verbatim>\<open>Object.keys(valueItem).forEach(key => {
      if (key.startsWith('@') && key !== '@unit') {
          const classId = key.substring(1);
          const code = valueItem[key];
          categories[classId] = classObj[classId]?.[code] || code; } });\<close>
\<close>

fun forEachKey ::
  "js_env \<Rightarrow> (string \<times> jsval) list \<Rightarrow> jsval \<Rightarrow> (string \<times> jsval) list \<Rightarrow> string list
     \<Rightarrow> jserror + (string \<times> jsval) list" where
  "forEachKey E classObj valueItem categories [] = Inr categories"
| "forEachKey E classObj valueItem categories (key # keys) =
     (if startsWith key ''@'' \<and> key \<noteq> ''@unit''
      then (case resolveCode E classObj (drop 1 key) (optProp valueItem key) of
              Inl e \<Rightarrow> Inl e
            | Inr label \<Rightarrow>
                forEachKey E classObj valueItem (setProp categories (drop 1 key) label) keys)
      else forEachKey E classObj valueItem categories keys)"

definition categoriesOf ::
  "js_env \<Rightarrow> (string \<times> jsval) list \<Rightarrow> jsval \<Rightarrow> jserror + (string \<times> jsval) list" where
  "categoriesOf E classObj valueItem =
     forEachKey E classObj valueItem [] (objectKeys valueItem)"

text \<open>
  The callback of \<open>values.forEach\<close>, lines 267 to 298, for one value row at clock position
  \<open>t\<close>: the record it pushes and the next clock position, or the exception it raises. The
  categories are built before the object literal, whose fields are evaluated in order, so
  \<open>determineDataType\<close> is called before the clock is read.
\<close>

definition normalizeRow ::
  "js_env \<Rightarrow> nat \<Rightarrow> jsval \<Rightarrow> jsval \<Rightarrow> jsval \<Rightarrow> jsval \<Rightarrow> (string \<times> jsval) list \<Rightarrow> jsval
     \<Rightarrow> jserror + (jsval \<times> nat)" where
  "normalizeRow E t sourceTableId tableInf statName surveyDate classObj valueItem =
     (case getProp valueItem ''$'' of
        Inl e \<Rightarrow> Inl e
      | Inr raw \<Rightarrow>
          (let val = jsor (Num (parseFloat E raw)) (Num (Finite 0));
               unit = jsor (optProp valueItem ''@unit'') (Str [])
           in case categoriesOf E classObj valueItem of
                Inl e \<Rightarrow> Inl e
              | Inr categories \<Rightarrow>
             (case determineDataType E statName of
                Inl e \<Rightarrow> Inl e
              | Inr dataType \<Rightarrow>
                  (let updated = optProp tableInf ''UPDATED_DATE'';
                       t1 = (if truthy updated then t else Suc t)
                   in Inr (Obj
                       [(''statName'', statName),
                        (''surveyDate'', surveyDate),
                        (''region'', jsor (optProp (Obj categories) ''area'')
                           (jsor (optProp (Obj categories) ''region'') (Str ''Japan''))),
                        (''category1'', jsor (optProp (Obj categories) ''cat01'')
                           (jsor (optProp (Obj categories) ''tab'') (Str ''General''))),
                        (''category2'', jsor (optProp (Obj categories) ''cat02'')
                           (jsor (optProp (Obj categories) ''cat03'') (Str []))),
                        (''value'', val),
                        (''unit'', unit),
                        (''sourceTableId'', sourceTableId),
                        (''dataType'', Str dataType),
                        (''lastUpdated'', if truthy updated then updated else Str (now E t)),
                        (''metadata'', Obj
                           [(''tableTitle'', statName),
                            (''categories'', Obj categories),
                            (''originalAttributes'', valueItem)]),
                        (''extractedAt'', Str (now E t1))],
                      Suc t1)))))"

text \<open>
  \<open>values.forEach\<close> with the array \<open>normalizedData\<close> and the clock position as state. An
  exception ends the loop and leaves the records pushed so far in \<open>normalizedData\<close>.
\<close>

fun forEachValue ::
  "js_env \<Rightarrow> jsval \<Rightarrow> jsval \<Rightarrow> jsval \<Rightarrow> jsval \<Rightarrow> (string \<times> jsval) list
     \<Rightarrow> jsval list \<times> nat \<Rightarrow> jsval list \<Rightarrow> (jsval list \<times> nat) \<times> jserror option" where
  "forEachValue E sourceTableId tableInf statName surveyDate classObj st [] = (st, None)"
| "forEachValue E sourceTableId tableInf statName surveyDate classObj st (valueItem # rest) =
     (case normalizeRow E (snd st) sourceTableId tableInf statName surveyDate classObj valueItem of
        Inl e \<Rightarrow> (st, Some e)
      | Inr (r, t') \<Rightarrow>
          forEachValue E sourceTableId tableInf statName surveyDate classObj
            (fst st @ [r], t') rest)"

text \<open>
  The \<open>try\<close> block, lines 242 to 299: the contents of \<open>normalizedData\<close> and the clock
  position when the block ends, and the exception if it ended by one.
\<close>

definition tryNormalize ::
  "js_env \<Rightarrow> nat \<Rightarrow> jsval \<Rightarrow> jsval \<Rightarrow> (jsval list \<times> nat) \<times> jserror option" where
  "tryNormalize E t rawData sourceTableId =
     (case getProp rawData ''TABLE_INF'' of
        Inl e \<Rightarrow> (([], t), Some e)
      | Inr tableInf \<Rightarrow>
     (case getProp rawData ''CLASS_INF'' of
        Inl e \<Rightarrow> (([], t), Some e)
      | Inr classInf \<Rightarrow>
     (case getProp rawData ''DATA_INF'' of
        Inl e \<Rightarrow> (([], t), Some e)
      | Inr dataInf \<Rightarrow>
          (let statName = jsor (optProp tableInf ''TITLE'') (Str ''Unknown Statistic'');
               surveyDate = jsor (optProp tableInf ''SURVEY_DATE'') (Str ''Unknown Date'')
           in case buildClassObj E classInf of
                Inl e \<Rightarrow> (([], t), Some e)
              | Inr classObj \<Rightarrow>
                  if truthy (optProp dataInf ''VALUE'')
                  then forEachValue E sourceTableId tableInf statName surveyDate classObj
                         ([], t) (coerceList (optProp dataInf ''VALUE''))
                  else (([], t), None)))))"

text \<open>The record pushed by the \<open>catch\<close> block, lines 302 to 315, given \<open>rawData.TABLE_INF\<close>.\<close>

definition errorRecord ::
  "js_env \<Rightarrow> nat \<Rightarrow> jsval \<Rightarrow> jsval \<Rightarrow> jsval \<Rightarrow> jserror \<Rightarrow> jsval" where
  "errorRecord E t rawData tableInf sourceTableId error =
     Obj [(''statName'', jsor (optProp tableInf ''TITLE'') (Str ''Unknown Statistic'')),
          (''surveyDate'', jsor (optProp tableInf ''SURVEY_DATE'') (Str ''Unknown Date'')),
          (''region'', Str ''Japan''),
          (''category1'', Str ''General''),
          (''category2'', Str []),
          (''value'', Num (Finite 0)),
          (''unit'', Str []),
          (''sourceTableId'', sourceTableId),
          (''dataType'', Str ''unknown''),
          (''lastUpdated'', Str (now E t)),
          (''metadata'', Obj [(''error'', Str (message error)), (''rawData'', rawData)]),
          (''extractedAt'', Str (now E (Suc t)))]"

text \<open>
  \<open>normalizeStatisticalData(rawData, metadata, sourceTableId)\<close> at clock position \<open>t\<close>: the
  returned array and the next clock position, or the exception that leaves the function.
  The \<open>catch\<close> block reads \<open>rawData.TABLE_INF\<close> again, outside any \<open>try\<close>. The parameter
  \<open>metadata\<close> is not used by the source.
\<close>

definition normalizeStatisticalData ::
  "js_env \<Rightarrow> nat \<Rightarrow> jsval \<Rightarrow> jsval \<Rightarrow> jsval \<Rightarrow> jserror + (jsval list \<times> nat)" where
  "normalizeStatisticalData E t rawData metadata sourceTableId =
     (case tryNormalize E t rawData sourceTableId of
        ((normalizedData, t'), None) \<Rightarrow> Inr (normalizedData, t')
      | ((normalizedData, t'), Some error) \<Rightarrow>
          (case getProp rawData ''TABLE_INF'' of
             Inl e \<Rightarrow> Inl e
           | Inr tableInf \<Rightarrow>
               Inr (normalizedData @ [errorRecord E t' rawData tableInf sourceTableId error],
                    Suc (Suc t'))))"

section \<open>The run: main.js\<close>

text \<open>
  The validated option set that \<open>validateInput\<close> returns; \<open>maxItems\<close> is an integer from 1
  to 100.
\<close>

datatype output_format = Structured | Raw | Both

fun formatName :: "output_format \<Rightarrow> string" where
  "formatName Structured = ''structured''"
| "formatName Raw = ''raw''"
| "formatName Both = ''both''"

record validated_input =
  searchKeyword :: string
  surveyYears :: string
  statsField :: string
  maxItems :: nat
  includeMetadata :: bool
  outputFormat :: output_format

definition inputValue :: "validated_input \<Rightarrow> jsval" where
  "inputValue input =
     Obj [(''searchKeyword'', Str (searchKeyword input)),
          (''surveyYears'', Str (surveyYears input)),
          (''statsField'', Str (statsField input)),
          (''maxItems'', Num (Finite (real (maxItems input)))),
          (''includeMetadata'', Bool (includeMetadata input)),
          (''outputFormat'', Str (formatName (outputFormat input)))]"

text \<open>
  The remote interface, seen from \<open>mainLogic\<close>: each function returns a document or raises.
  The answer to a request for a table may depend on the number of requests made before it.
\<close>

record collaborators =
  getStatsList :: "jsval \<Rightarrow> jserror + jsval list"
  getMetaInfo :: "nat \<Rightarrow> jsval \<Rightarrow> jserror + jsval"
  getStatsData :: "nat \<Rightarrow> jsval \<Rightarrow> jserror + jsval"

datatype request = StatsListRequest jsval | MetaInfoRequest jsval | StatsDataRequest jsval

text \<open>
  The state of a run: the items pushed to the dataset in order, the clock position, the
  requests sent so far, and the two counters of \<open>mainLogic\<close>.
\<close>

record run_state =
  dataset :: "jsval list"
  tick :: nat
  requests :: "request list"
  totalDataPoints :: nat
  processedTables :: nat

definition initialState :: run_state where
  "initialState = \<lparr> dataset = [], tick = 0, requests = [], totalDataPoints = 0,
     processedTables = 0 \<rparr>"

text \<open>\<open>await Actor.pushData(item)\<close>, and the record of a request sent to the remote side.\<close>

definition pushData :: "jsval \<Rightarrow> run_state \<Rightarrow> run_state" where
  "pushData item s = s\<lparr> dataset := dataset s @ [item] \<rparr>"

definition sendRequest :: "request \<Rightarrow> run_state \<Rightarrow> run_state" where
  "sendRequest r s = s\<lparr> requests := requests s @ [r] \<rparr>"

text \<open>\<open>buildSearchParams(input)\<close>, lines 181 to 188.\<close>

definition buildSearchParams :: "validated_input \<Rightarrow> jsval" where
  "buildSearchParams input =
     Obj ((if searchKeyword input \<noteq> [] then [(''searchWord'', Str (searchKeyword input))] else [])
        @ (if surveyYears input \<noteq> [] then [(''surveyYears'', Str (surveyYears input))] else [])
        @ (if statsField input \<noteq> [] then [(''statsField'', Str (statsField input))] else [])
        @ [(''limit'', Num (Finite (real (min (maxItems input * 2) 100))))])"

text \<open>The sample data of \<open>runDemoMode\<close>, lines 192 to 221; the Japanese text as UTF-8.\<close>

definition demo_statName1 :: string where
  "demo_statName1 =
     [CHR 0xE5, CHR 0x9B, CHR 0xBD, CHR 0xE5, CHR 0x8B, CHR 0xA2, CHR 0xE8, CHR 0xAA,
      CHR 0xBF, CHR 0xE6, CHR 0x9F, CHR 0xBB, CHR 0x20, CHR 0xE4, CHR 0xBA, CHR 0xBA,
      CHR 0xE5, CHR 0x8F, CHR 0xA3, CHR 0xE7, CHR 0xB7, CHR 0x8F, CHR 0xE6, CHR 0x95,
      CHR 0xB0]"

definition demo_surveyDate1 :: string where
  "demo_surveyDate1 =
     [CHR 0x32, CHR 0x30, CHR 0x32, CHR 0x30, CHR 0xE5, CHR 0xB9, CHR 0xB4]"

definition demo_zenkoku :: string where
  "demo_zenkoku =
     [CHR 0xE5, CHR 0x85, CHR 0xA8, CHR 0xE5, CHR 0x9B, CHR 0xBD]"

definition demo_category1_1 :: string where
  "demo_category1_1 =
     [CHR 0xE7, CHR 0xB7, CHR 0x8F, CHR 0xE4, CHR 0xBA, CHR 0xBA, CHR 0xE5, CHR 0x8F,
      CHR 0xA3]"

definition demo_danjokei :: string where
  "demo_danjokei =
     [CHR 0xE7, CHR 0x94, CHR 0xB7, CHR 0xE5, CHR 0xA5, CHR 0xB3, CHR 0xE8, CHR 0xA8,
      CHR 0x88]"

definition demo_nin :: string where
  "demo_nin =
     [CHR 0xE4, CHR 0xBA, CHR 0xBA]"

definition demo_statName2 :: string where
  "demo_statName2 =
     [CHR 0xE5, CHR 0x8A, CHR 0xB4, CHR 0xE5, CHR 0x83, CHR 0x8D, CHR 0xE5, CHR 0x8A,
      CHR 0x9B, CHR 0xE8, CHR 0xAA, CHR 0xBF, CHR 0xE6, CHR 0x9F, CHR 0xBB, CHR 0x20,
      CHR 0xE5, CHR 0xB0, CHR 0xB1, CHR 0xE6, CHR 0xA5, CHR 0xAD, CHR 0xE8, CHR 0x80,
      CHR 0x85, CHR 0xE6, CHR 0x95, CHR 0xB0]"

definition demo_surveyDate2 :: string where
  "demo_surveyDate2 =
     [CHR 0x32, CHR 0x30, CHR 0x32, CHR 0x33, CHR 0xE5, CHR 0xB9, CHR 0xB4, CHR 0x31,
      CHR 0x32, CHR 0xE6, CHR 0x9C, CHR 0x88]"

definition demo_category1_2 :: string where
  "demo_category1_2 =
     [CHR 0xE5, CHR 0xB0, CHR 0xB1, CHR 0xE6, CHR 0xA5, CHR 0xAD, CHR 0xE8, CHR 0x80,
      CHR 0x85]"

definition demo_sousuu :: string where
  "demo_sousuu =
     [CHR 0xE7, CHR 0xB7, CHR 0x8F, CHR 0xE6, CHR 0x95, CHR 0xB0]"

definition demoData :: "js_env \<Rightarrow> nat \<Rightarrow> jsval list" where
  "demoData E t =
     [Obj [(''statName'', Str demo_statName1),
           (''surveyDate'', Str demo_surveyDate1),
           (''region'', Str demo_zenkoku),
           (''category1'', Str demo_category1_1),
           (''category2'', Str demo_danjokei),
           (''value'', Num (Finite 125836021)),
           (''unit'', Str demo_nin),
           (''sourceTableId'', Str ''demo_001''),
           (''dataType'', Str ''population''),
           (''lastUpdated'', Str ''2021-06-25T00:00:00Z''),
           (''metadata'', Obj
              [(''tableTitle'', Str demo_statName1),
               (''categories'', Obj [(''area'', Str demo_zenkoku), (''gender'', Str demo_danjokei)]),
               (''note'', Str ''This is demo data'')]),
           (''extractedAt'', Str (now E t))],
      Obj [(''statName'', Str demo_statName2),
           (''surveyDate'', Str demo_surveyDate2),
           (''region'', Str demo_zenkoku),
           (''category1'', Str demo_category1_2),
           (''category2'', Str demo_sousuu),
           (''value'', Num (Finite 67230000)),
           (''unit'', Str demo_nin),
           (''sourceTableId'', Str ''demo_002''),
           (''dataType'', Str ''labor''),
           (''lastUpdated'', Str ''2024-01-30T00:00:00Z''),
           (''metadata'', Obj
              [(''tableTitle'', Str demo_statName2),
               (''categories'', Obj
                  [(''area'', Str demo_zenkoku), (''employment'', Str demo_category1_2)]),
               (''note'', Str ''This is demo data'')]),
           (''extractedAt'', Str (now E (Suc t)))]]"

text \<open>\<open>item.name.toLowerCase()\<close> for a field of a sample record, which is a string.\<close>

definition lowerField :: "js_env \<Rightarrow> jsval \<Rightarrow> string \<Rightarrow> string" where
  "lowerField E item name =
     (case optProp item name of Str s \<Rightarrow> toLowerCase E s | _ \<Rightarrow> [])"

text \<open>The predicate of the filter, lines 226 to 230, with \<open>keyword\<close> already lower-cased.\<close>

definition demoMatches :: "js_env \<Rightarrow> string \<Rightarrow> jsval \<Rightarrow> bool" where
  "demoMatches E keyword item =
     (str_includes (lowerField E item ''statName'') keyword
      \<or> str_includes (lowerField E item ''category1'') keyword
      \<or> str_includes (lowerField E item ''dataType'') keyword)"

text \<open>\<open>filteredData\<close> after lines 223 to 232.\<close>

definition demoFiltered :: "js_env \<Rightarrow> nat \<Rightarrow> validated_input \<Rightarrow> jsval list" where
  "demoFiltered E t input =
     take (maxItems input)
       (if searchKeyword input \<noteq> []
        then filter (demoMatches E (toLowerCase E (searchKeyword input))) (demoData E t)
        else demoData E t)"

definition demoSummary :: "js_env \<Rightarrow> nat \<Rightarrow> validated_input \<Rightarrow> nat \<Rightarrow> jsval" where
  "demoSummary E t input n =
     Obj [(''type'', Str ''demo_summary''),
          (''message'', Str
             ''Demo mode completed. To access real e-Stat data, please provide ESTAT_APP_ID.''),
          (''demoDataPoints'', Num (Finite (real n))),
          (''searchCriteria'', inputValue input),
          (''registrationInfo'', Obj
             [(''url'', Str ''https://www.e-stat.go.jp/api/''),
              (''note'', Str ''Register for free e-Stat API access'')]),
          (''completedAt'', Str (now E t))]"

text \<open>\<open>runDemoMode(input)\<close>: the clock is read twice for the sample data and once for the
  summary.\<close>

definition runDemoMode :: "js_env \<Rightarrow> validated_input \<Rightarrow> run_state \<Rightarrow> run_state" where
  "runDemoMode E input s =
     (let filteredData = demoFiltered E (tick s) input
      in s\<lparr> dataset := dataset s @ filteredData
               @ [demoSummary E (tick s + 2) input (length filteredData)],
            tick := tick s + 3 \<rparr>)"

text \<open>The items that \<open>mainLogic\<close> builds, each at the clock position of its timestamp.\<close>

definition rawItem :: "js_env \<Rightarrow> nat \<Rightarrow> jsval \<Rightarrow> jsval \<Rightarrow> jsval \<Rightarrow> jsval \<Rightarrow> jsval" where
  "rawItem E t tableId table metadata statsData =
     Obj [(''type'', Str ''raw''),
          (''tableId'', tableId),
          (''tableInfo'', table),
          (''metadata'', metadata),
          (''rawData'', statsData),
          (''extractedAt'', Str (now E t))]"

definition tableErrorItem :: "js_env \<Rightarrow> nat \<Rightarrow> jsval \<Rightarrow> jsval \<Rightarrow> jserror \<Rightarrow> jsval" where
  "tableErrorItem E t tableId tableTitle tableError =
     Obj [(''type'', Str ''error''),
          (''tableId'', tableId),
          (''tableTitle'', tableTitle),
          (''error'', Str (message tableError)),
          (''extractedAt'', Str (now E t))]"

definition noTablesItem :: "js_env \<Rightarrow> nat \<Rightarrow> jsval \<Rightarrow> jsval" where
  "noTablesItem E t searchParams =
     Obj [(''message'', Str ''No statistical tables found for the given search criteria''),
          (''searchParams'', searchParams),
          (''extractedAt'', Str (now E t))]"

definition summaryItem :: "js_env \<Rightarrow> nat \<Rightarrow> validated_input \<Rightarrow> nat \<Rightarrow> nat \<Rightarrow> jsval" where
  "summaryItem E t input tables points =
     Obj [(''type'', Str ''summary''),
          (''tablesProcessed'', Num (Finite (real tables))),
          (''totalDataPoints'', Num (Finite (real points))),
          (''searchCriteria'', inputValue input),
          (''completedAt'', Str (now E t))]"

definition runErrorItem :: "js_env \<Rightarrow> nat \<Rightarrow> validated_input \<Rightarrow> jserror \<Rightarrow> jsval" where
  "runErrorItem E t input error =
     Obj [(''type'', Str ''error''),
          (''error'', Str (message error)),
          (''message'', Str ''An error occurred while processing. Falling back to demo mode.''),
          (''input'', inputValue input),
          (''extractedAt'', Str (now E t))]"

text \<open>
  The \<open>try\<close> block of the loop body, lines 71 to 122, for one table: the state when the
  block ends and the exception if it ended by one. The arguments of the logging calls are
  evaluated, so \<open>table['@id']\<close> is read first and raises on a \<open>null\<close> descriptor. A failure
  of \<open>getMetaInfo\<close> is caught at line 87 and leaves \<open>metadata\<close> at \<open>null\<close>.
\<close>

definition tryTable ::
  "js_env \<Rightarrow> collaborators \<Rightarrow> validated_input \<Rightarrow> run_state \<Rightarrow> jsval
     \<Rightarrow> run_state \<times> jserror option" where
  "tryTable E C input s table =
     (let s1 = s\<lparr> processedTables := Suc (processedTables s) \<rparr>
      in case getProp table ''@id'' of
           Inl e \<Rightarrow> (s1, Some e)
         | Inr tableId \<Rightarrow>
     (let metadata =
            (if includeMetadata input
             then (case getMetaInfo C (length (requests s1)) tableId of
                     Inl metaError \<Rightarrow> Null
                   | Inr m \<Rightarrow> m)
             else Null);
          s2 = (if includeMetadata input then sendRequest (MetaInfoRequest tableId) s1 else s1);
          s3 = sendRequest (StatsDataRequest tableId) s2
      in case getStatsData C (length (requests s2)) tableId of
           Inl e \<Rightarrow> (s3, Some e)
         | Inr statsData \<Rightarrow>
     (let s4 = (if outputFormat input = Raw \<or> outputFormat input = Both
                then pushData (rawItem E (tick s3) tableId table metadata statsData)
                       (s3\<lparr> tick := Suc (tick s3) \<rparr>)
                else s3)
      in if outputFormat input = Structured \<or> outputFormat input = Both
         then (case normalizeStatisticalData E (tick s4) statsData metadata tableId of
                 Inl e \<Rightarrow> (s4, Some e)
               | Inr (normalizedData, t') \<Rightarrow>
                   (s4\<lparr> dataset := dataset s4 @ normalizedData, tick := t',
                        totalDataPoints := totalDataPoints s4 + length normalizedData \<rparr>,
                    None))
         else (s4, None))))"

text \<open>
  The loop body with its \<open>catch\<close> block, lines 124 to 138. The block reads \<open>table['@id']\<close>
  again; an exception raised there leaves the loop.
\<close>

definition processTable ::
  "js_env \<Rightarrow> collaborators \<Rightarrow> validated_input \<Rightarrow> run_state \<Rightarrow> jsval
     \<Rightarrow> run_state \<times> jserror option" where
  "processTable E C input s table =
     (case tryTable E C input s table of
        (s', None) \<Rightarrow> (s', None)
      | (s', Some tableError) \<Rightarrow>
          (case getProp table ''@id'' of
             Inl e \<Rightarrow> (s', Some e)
           | Inr tableId \<Rightarrow>
               (pushData (tableErrorItem E (tick s') tableId (optProp table ''TITLE'') tableError)
                  (s'\<lparr> tick := Suc (tick s') \<rparr>),
                None)))"

text \<open>\<open>for (const table of tablesToProcess)\<close>\<close>

fun forTables ::
  "js_env \<Rightarrow> collaborators \<Rightarrow> validated_input \<Rightarrow> run_state \<Rightarrow> jsval list
     \<Rightarrow> run_state \<times> jserror option" where
  "forTables E C input s [] = (s, None)"
| "forTables E C input s (table # rest) =
     (case processTable E C input s table of
        (s', Some e) \<Rightarrow> (s', Some e)
      | (s', None) \<Rightarrow> forTables E C input s' rest)"

text \<open>The outer \<open>try\<close> block, lines 36 to 156.\<close>

definition tryMain ::
  "js_env \<Rightarrow> collaborators \<Rightarrow> validated_input \<Rightarrow> run_state \<Rightarrow> run_state \<times> jserror option" where
  "tryMain E C input s =
     (let searchParams = buildSearchParams input;
          s1 = sendRequest (StatsListRequest searchParams) s
      in case getStatsList C searchParams of
           Inl e \<Rightarrow> (s1, Some e)
         | Inr statsList \<Rightarrow>
             if length statsList = 0
             then (pushData (noTablesItem E (tick s1) searchParams) (s1\<lparr> tick := Suc (tick s1) \<rparr>),
                   None)
             else (let tablesToProcess = take (maxItems input) statsList
                   in case forTables E C input s1 tablesToProcess of
                        (s2, Some e) \<Rightarrow> (s2, Some e)
                      | (s2, None) \<Rightarrow>
                          (pushData (summaryItem E (tick s2) input (processedTables s2)
                                       (totalDataPoints s2))
                             (s2\<lparr> tick := Suc (tick s2) \<rparr>),
                           None)))"

text \<open>The test of line 161 on \<open>error.message\<close>.\<close>

definition isAuthMessage :: "string \<Rightarrow> bool" where
  "isAuthMessage m = (str_includes m ''403'' \<or> str_includes m ''401'' \<or> str_includes m ''API'')"

text \<open>
  \<open>mainLogic\<close> from the validated input on; \<open>estatAppId\<close> tells whether an application id is
  configured. The result is the final state of the run.
\<close>

definition mainLogic ::
  "js_env \<Rightarrow> collaborators \<Rightarrow> validated_input \<Rightarrow> bool \<Rightarrow> run_state" where
  "mainLogic E C input estatAppId =
     (if \<not> estatAppId then runDemoMode E input initialState
      else (case tryMain E C input initialState of
              (s, None) \<Rightarrow> s
            | (s, Some error) \<Rightarrow>
                if isAuthMessage (message error) then runDemoMode E input s
                else runDemoMode E input
                       (pushData (runErrorItem E (tick s) input error)
                          (s\<lparr> tick := Suc (tick s) \<rparr>))))"

section \<open>Notions of the specification\<close>















text \<open>
  The value rows of a payload (\<open>values\<close> at line 265, none when \<open>dataInf?.VALUE\<close> is
  falsy) and its title (\<open>statName\<close> at line 247).
\<close>

definition valueRows :: "jsval \<Rightarrow> jsval list" where
  "valueRows rawData =
     (if truthy (optProp (optProp rawData ''DATA_INF'') ''VALUE'')
      then coerceList (optProp (optProp rawData ''DATA_INF'') ''VALUE'')
      else [])"

definition payloadTitle :: "jsval \<Rightarrow> jsval" where
  "payloadTitle rawData =
     jsor (optProp (optProp rawData ''TABLE_INF'') ''TITLE'') (Str ''Unknown Statistic'')"















text \<open>
  The table ids of the data requests and of the metadata requests of a run, in the order
  sent, and the ids of a list of table descriptors.
\<close>

fun dataRequestIds :: "request list \<Rightarrow> jsval list" where
  "dataRequestIds [] = []"
| "dataRequestIds (StatsDataRequest tableId # rs) = tableId # dataRequestIds rs"
| "dataRequestIds (r # rs) = dataRequestIds rs"

fun metaRequestIds :: "request list \<Rightarrow> jsval list" where
  "metaRequestIds [] = []"
| "metaRequestIds (MetaInfoRequest tableId # rs) = tableId # metaRequestIds rs"
| "metaRequestIds (r # rs) = metaRequestIds rs"

definition tableIds :: "jsval list \<Rightarrow> jsval list" where
  "tableIds tables = map (\<lambda>table. optProp table ''@id'') tables"

section \<open>A concrete environment\<close>

text \<open>
  An environment on which the definitions can be evaluated: lower-casing of ASCII letters
  (which is what \<open>toLowerCase\<close> does on ASCII text), fixed answers for the number
  functions, the name of the function \<open>Object\<close> as the one property of a built-in, and a
  clock that shows a later time from its third reading on.
\<close>

definition asciiLower :: "char \<Rightarrow> char" where
  "asciiLower c =
     (case map_of (zip ''ABCDEFGHIJKLMNOPQRSTUVWXYZ'' ''abcdefghijklmnopqrstuvwxyz'') c of
        None \<Rightarrow> c
      | Some l \<Rightarrow> l)"

definition sampleEnv :: js_env where
  "sampleEnv =
     \<lparr> toLowerCase = map asciiLower,
       parseFloat = (\<lambda>v. if v = Str ''125836021'' then Finite 125836021 else NaN),
       numberToString = (\<lambda>n. ''0''),
       hostToString = (\<lambda>h. ''function () { [native code] }''),
       hostGet = (\<lambda>v name. if v = Host ''Object'' \<and> name = ''name''
                             then Inr (Str ''Object'') else Inr Undefined),
       now = (\<lambda>k. if k < 2 then ''2025-01-01T00:00:00.000Z'' else ''2025-01-01T00:00:01.000Z'') \<rparr>"

text \<open>
  The scenario of the specification: one classification group \<open>area\<close> with the code \<open>00000\<close>
  and its Japanese label, and one value row that refers to it. A second document gives the
  code an empty label.
\<close>

definition sampleClassInf :: jsval where
  "sampleClassInf =
     Obj [(''CLASS_OBJ'', Obj
       [(''@id'', Str ''area''),
        (''CLASS'', Arr [Obj [(''@code'', Str ''00000''), (''@name'', Str demo_zenkoku)]])])]"

definition sampleClassObj :: "(string \<times> jsval) list" where
  "sampleClassObj = [(''area'', Obj [(''00000'', Str demo_zenkoku)])]"


definition sampleRow :: jsval where
  "sampleRow =
     Obj [(''@area'', Str ''00000''), (''@unit'', Str demo_nin), (''$'', Str ''125836021'')]"



text \<open>
  Payloads around the sample row: a complete one, one without \<open>UPDATED_DATE\<close> and without
  classification section, and one whose second value row is \<open>null\<close>; and the records that
  the sample row gives under the first two.
\<close>

definition sampleTableInf :: jsval where
  "sampleTableInf =
     Obj [(''TITLE'', Str ''Population Census''), (''SURVEY_DATE'', Str ''2020''),
          (''UPDATED_DATE'', Str ''2021-06-25'')]"

definition samplePayload :: jsval where
  "samplePayload =
     Obj [(''TABLE_INF'', sampleTableInf), (''CLASS_INF'', sampleClassInf),
          (''DATA_INF'', Obj [(''VALUE'', sampleRow)])]"

definition undatedPayload :: jsval where
  "undatedPayload =
     Obj [(''TABLE_INF'', Obj [(''TITLE'', Str ''Population Census'')]),
          (''DATA_INF'', Obj [(''VALUE'', sampleRow)])]"

definition brokenPayload :: jsval where
  "brokenPayload =
     Obj [(''TABLE_INF'', sampleTableInf), (''CLASS_INF'', sampleClassInf),
          (''DATA_INF'', Obj [(''VALUE'', Arr [sampleRow, Null])])]"

definition sampleRecord :: "string \<Rightarrow> jsval" where
  "sampleRecord extractedAt =
     Obj [(''statName'', Str ''Population Census''),
          (''surveyDate'', Str ''2020''),
          (''region'', Str demo_zenkoku),
          (''category1'', Str ''General''),
          (''category2'', Str []),
          (''value'', Num (Finite 125836021)),
          (''unit'', Str demo_nin),
          (''sourceTableId'', Str ''0003448738''),
          (''dataType'', Str ''population''),
          (''lastUpdated'', Str ''2021-06-25''),
          (''metadata'', Obj
             [(''tableTitle'', Str ''Population Census''),
              (''categories'', Obj [(''area'', Str demo_zenkoku)]),
              (''originalAttributes'', sampleRow)]),
          (''extractedAt'', Str extractedAt)]"


text \<open>
  Table descriptors, option sets, and remote sides: one that serves the sample payload and
  fails every metadata request, one whose search is refused, one that offers three
  candidates, one whose data requests fail, and one that offers two tables and has data
  for the second only.
\<close>

definition sampleTable :: jsval where
  "sampleTable = Obj [(''@id'', Str ''0003448738''), (''TITLE'', Str ''Population Census'')]"

definition sampleInput :: validated_input where
  "sampleInput =
     \<lparr> searchKeyword = [], surveyYears = [], statsField = [], maxItems = 10,
       includeMetadata = True, outputFormat = Structured \<rparr>"

definition plainInput :: validated_input where
  "plainInput = sampleInput\<lparr> includeMetadata := False \<rparr>"

definition twoInput :: validated_input where
  "twoInput = sampleInput\<lparr> maxItems := 2 \<rparr>"

definition noResponse :: jserror where
  "noResponse = Error ''e-Stat API Error (getStatsData for 0003448738): No response received from server.''"

definition forbidden :: jserror where
  "forbidden = Error ''e-Stat API Error (getStatsList): Status 403 - Unknown API error''"

definition sampleCollaborators :: collaborators where
  "sampleCollaborators =
     \<lparr> getStatsList = (\<lambda>params. Inr [sampleTable]),
       getMetaInfo = (\<lambda>n tableId. Inl noResponse),
       getStatsData = (\<lambda>n tableId. Inr samplePayload) \<rparr>"

definition offlineCollaborators :: collaborators where
  "offlineCollaborators =
     \<lparr> getStatsList = (\<lambda>params. Inl forbidden),
       getMetaInfo = (\<lambda>n tableId. Inl noResponse),
       getStatsData = (\<lambda>n tableId. Inl noResponse) \<rparr>"

definition crowdedCollaborators :: collaborators where
  "crowdedCollaborators =
     \<lparr> getStatsList = (\<lambda>params. Inr [sampleTable, sampleTable, sampleTable]),
       getMetaInfo = (\<lambda>n tableId. Inl noResponse),
       getStatsData = (\<lambda>n tableId. Inl noResponse) \<rparr>"

definition noDataCollaborators :: collaborators where
  "noDataCollaborators =
     \<lparr> getStatsList = (\<lambda>params. Inr [sampleTable]),
       getMetaInfo = (\<lambda>n tableId. Inl noResponse),
       getStatsData = (\<lambda>n tableId. Inl noResponse) \<rparr>"



definition laborInput :: validated_input where
  "laborInput = sampleInput\<lparr> searchKeyword := ''Labor'' \<rparr>"

definition oneInput :: validated_input where
  "oneInput = sampleInput\<lparr> maxItems := 1 \<rparr>"

section \<open>Properties of the classifier\<close>

lemma classifyName_firstMatch: "classifyName name = firstMatch keywordTable name"
  by (simp add: classifyName_def keywordTable_def)

lemma classifyName_dataTypes: "classifyName name \<in> set dataTypes"
  by (simp add: classifyName_def dataTypes_def)

text \<open>
  C4. \<open>determineDataType\<close> returns on every string, its result is one of the eight
  categories, and it is the first category, in the order population, economic, labor,
  industry, education, health, environment, one of whose keywords occurs in the
  lower-cased title, \<open>general\<close> when none occurs. A title whose lower-cased form contains a
  population keyword is \<open>population\<close> whatever labor keyword it also contains.
\<close>

theorem determineDataType_total_first_match:
  "determineDataType E (Str title) = Inr (spec_classify E title)
   \<and> spec_classify E title \<in> set dataTypes
   \<and> distinct dataTypes \<and> length dataTypes = 8
   \<and> map fst keywordTable = butlast dataTypes
   \<and> ((str_includes (toLowerCase E title) kw_jinkou \<or> str_includes (toLowerCase E title) ''population'')
        \<and> (str_includes (toLowerCase E title) kw_roudou \<or> str_includes (toLowerCase E title) kw_koyou
             \<or> str_includes (toLowerCase E title) ''labor'')
      \<longrightarrow> determineDataType E (Str title) = Inr ''population'')"
proof -
  have a: "determineDataType E (Str title) = Inr (spec_classify E title)"
    by (simp add: spec_classify_def classifyName_firstMatch)
  have b: "spec_classify E title \<in> set dataTypes"
    using classifyName_dataTypes [of "toLowerCase E title"]
    by (simp add: spec_classify_def classifyName_firstMatch)
  have c: "distinct dataTypes \<and> length dataTypes = 8"
    by (simp add: dataTypes_def)
  have d: "map fst keywordTable = butlast dataTypes"
    by (simp add: keywordTable_def dataTypes_def)
  have e: "str_includes (toLowerCase E title) kw_jinkou \<or> str_includes (toLowerCase E title) ''population''
    \<Longrightarrow> determineDataType E (Str title) = Inr ''population''"
    by (simp add: classifyName_def)
  from a b c d e show ?thesis by blast
qed

theorem determineDataType_total_first_match_witness:
  "(str_includes (toLowerCase sampleEnv ''Population and Labor'') ''population''
    \<and> str_includes (toLowerCase sampleEnv ''Population and Labor'') ''labor'')
   \<and> determineDataType sampleEnv (Str ''Population and Labor'') = Inr ''population''"
proof -
  have low: "toLowerCase sampleEnv ''Population and Labor'' = ''population and labor''"
    by (simp add: sampleEnv_def asciiLower_def)
  have h: "str_includes (toLowerCase sampleEnv ''Population and Labor'') ''population''
    \<and> str_includes (toLowerCase sampleEnv ''Population and Labor'') ''labor''"
    unfolding low by (simp add: startsWith_def)
  with determineDataType_total_first_match [of sampleEnv "''Population and Labor''"]
  show ?thesis by blast
qed

section \<open>The classification index\<close>




lemma getProp_Inr_optProp: "getProp v name = Inr x \<Longrightarrow> x = optProp v name"
  by (cases v) auto

lemma getProp_not_nullish: "\<not> isNullish v \<Longrightarrow> getProp v name = Inr (optProp v name)"
  by (cases v) (auto simp: isNullish_def)
















lemma arrayIndex_area: "arrayIndex ''area'' = None"
  by (simp add: arrayIndex_def digitValue_def)

lemma build_sample: "buildClassObj sampleEnv sampleClassInf = Inr sampleClassObj"
  by (simp add: buildClassObj_def sampleClassInf_def sampleClassObj_def setProp_def
      arrayIndex_def digitValue_def)




section \<open>Evaluation of the classifier on the sample title\<close>

lemma classifyName_population:
  "str_includes name kw_jinkou \<or> str_includes name ''population''
   \<Longrightarrow> classifyName name = ''population''"
  by (simp add: classifyName_def)

lemma dt_census: "determineDataType sampleEnv (Str ''Population Census'') = Inr ''population''"
proof -
  have "str_includes ''population census'' ''population''" by (simp add: startsWith_def)
  then have "classifyName ''population census'' = ''population''"
    by (simp add: classifyName_population)
  moreover have "toLowerCase sampleEnv ''Population Census'' = ''population census''"
    by (simp add: sampleEnv_def asciiLower_def)
  ultimately show ?thesis by (simp only: determineDataType.simps)
qed

section \<open>The fields of a record\<close>







lemma plain_area: "''area'' \<notin> set objectPrototypeNames"
  by (simp add: objectPrototypeNames_def)

lemma resolve_sample:
  "resolveCode sampleEnv sampleClassObj ''area'' (Str ''00000'') = Inr (Str demo_zenkoku)"
  by (simp add: resolveCode_def sampleClassObj_def plainGet_def isNullish_def jsor_def
      demo_zenkoku_def)






section \<open>The normalization loop\<close>








lemma tryNormalize_not_nullish:
  assumes "\<not> isNullish rawData"
  shows "tryNormalize E t rawData sid =
     (case buildClassObj E (optProp rawData ''CLASS_INF'') of
        Inl e \<Rightarrow> (([], t), Some e)
      | Inr classObj \<Rightarrow>
          forEachValue E sid (optProp rawData ''TABLE_INF'') (payloadTitle rawData)
            (jsor (optProp (optProp rawData ''TABLE_INF'') ''SURVEY_DATE'') (Str ''Unknown Date''))
            classObj ([], t) (valueRows rawData))"
  unfolding tryNormalize_def Let_def getProp_not_nullish [OF assms]
  by (simp add: payloadTitle_def valueRows_def split: sum.splits)
















section \<open>Evaluation on the sample documents\<close>

lemma cats_sample:
  "categoriesOf sampleEnv sampleClassObj sampleRow = Inr [(''area'', Str demo_zenkoku)]"
  unfolding categoriesOf_def sampleRow_def
  by (simp add: startsWith_def resolve_sample setProp_def arrayIndex_area)



lemma row_sample:
  "normalizeRow sampleEnv t (Str ''0003448738'') sampleTableInf (Str ''Population Census'')
     (Str ''2020'') sampleClassObj sampleRow = Inr (sampleRecord (now sampleEnv t), Suc t)"
proof -
  have g: "getProp sampleRow ''$'' = Inr (Str ''125836021'')" by (simp add: sampleRow_def)
  have u: "optProp sampleRow ''@unit'' = Str demo_nin" by (simp add: sampleRow_def)
  have d: "optProp sampleTableInf ''UPDATED_DATE'' = Str ''2021-06-25''"
    by (simp add: sampleTableInf_def)
  have p: "parseFloat sampleEnv (Str ''125836021'') = Finite 125836021" by (simp add: sampleEnv_def)
  have n: "truthy (Str demo_nin)" "truthy (Str demo_zenkoku)"
    by (simp_all add: demo_nin_def demo_zenkoku_def)
  show ?thesis
    unfolding normalizeRow_def Let_def g dt_census cats_sample u d p sum.case
    using n by (simp add: jsor_def sampleRecord_def)
qed


lemma nn_sample: "\<not> isNullish samplePayload" "\<not> isNullish brokenPayload" "\<not> isNullish undatedPayload"
  by (simp_all add: isNullish_def samplePayload_def brokenPayload_def undatedPayload_def)

lemma parts_sample:
  "optProp samplePayload ''TABLE_INF'' = sampleTableInf"
  "optProp samplePayload ''CLASS_INF'' = sampleClassInf"
  "valueRows samplePayload = [sampleRow]"
  "payloadTitle samplePayload = Str ''Population Census''"
  by (simp_all add: samplePayload_def valueRows_def payloadTitle_def sampleTableInf_def sampleRow_def jsor_def)



lemma survey_sample: "jsor (optProp sampleTableInf ''SURVEY_DATE'') (Str ''Unknown Date'') = Str ''2020''"
  by (simp add: sampleTableInf_def jsor_def)


lemma try_sample:
  "tryNormalize sampleEnv t samplePayload (Str ''0003448738'')
     = (([sampleRecord (now sampleEnv t)], Suc t), None)"
  unfolding tryNormalize_not_nullish [OF nn_sample(1)] parts_sample build_sample survey_sample
  by (simp add: row_sample)






section \<open>The result of normalizeStatisticalData\<close>






section \<open>Repeated normalization\<close>




section \<open>The table loop\<close>

lemma dataRequestIds_append: "dataRequestIds (xs @ ys) = dataRequestIds xs @ dataRequestIds ys"
  by (induction xs rule: dataRequestIds.induct) auto

lemma metaRequestIds_append: "metaRequestIds (xs @ ys) = metaRequestIds xs @ metaRequestIds ys"
  by (induction xs rule: metaRequestIds.induct) auto

lemma tryTable_requests:
  assumes "tryTable E C input s table = (s', err)"
  shows "processedTables s' = Suc (processedTables s)
     \<and> (\<exists>extra. requests s' = requests s @ extra
           \<and> length (dataRequestIds extra) \<le> 1 \<and> length (metaRequestIds extra) \<le> 1
           \<and> set (dataRequestIds extra) \<subseteq> {optProp table ''@id''}
           \<and> set (metaRequestIds extra) \<subseteq> {optProp table ''@id''})"
proof (cases "getProp table ''@id''")
  case (Inl e)
  with assms show ?thesis by (auto simp: tryTable_def Let_def)
next
  case (Inr tableId)
  then have t: "tableId = optProp table ''@id''" by (rule getProp_Inr_optProp)
  let ?extra = "(if includeMetadata input then [MetaInfoRequest tableId] else [])
     @ [StatsDataRequest tableId]"
  from assms Inr have "processedTables s' = Suc (processedTables s)
    \<and> requests s' = requests s @ ?extra"
    unfolding tryTable_def Let_def
    by (auto simp: sendRequest_def pushData_def split: sum.splits if_splits prod.splits)
  moreover have "length (dataRequestIds ?extra) \<le> 1 \<and> length (metaRequestIds ?extra) \<le> 1
           \<and> set (dataRequestIds ?extra) \<subseteq> {optProp table ''@id''}
           \<and> set (metaRequestIds ?extra) \<subseteq> {optProp table ''@id''}"
    by (simp add: t)
  ultimately show ?thesis by blast
qed

lemma processTable_requests:
  assumes "processTable E C input s table = (s', err)"
  shows "processedTables s' = Suc (processedTables s)
     \<and> (\<exists>extra. requests s' = requests s @ extra
           \<and> length (dataRequestIds extra) \<le> 1 \<and> length (metaRequestIds extra) \<le> 1
           \<and> set (dataRequestIds extra) \<subseteq> {optProp table ''@id''}
           \<and> set (metaRequestIds extra) \<subseteq> {optProp table ''@id''})"
proof -
  obtain s1 e1 where t: "tryTable E C input s table = (s1, e1)" by (cases "tryTable E C input s table")
  from assms t have "processedTables s' = processedTables s1 \<and> requests s' = requests s1"
    by (auto simp: processTable_def pushData_def split: option.splits sum.splits)
  with tryTable_requests [OF t] show ?thesis by simp
qed

lemma forTables_requests:
  "forTables E C input s tables = (s', err) \<Longrightarrow>
   processedTables s' \<le> processedTables s + length tables
   \<and> (\<exists>extra. requests s' = requests s @ extra
         \<and> length (dataRequestIds extra) \<le> length tables
         \<and> length (metaRequestIds extra) \<le> length tables
         \<and> set (dataRequestIds extra) \<subseteq> set (tableIds tables)
         \<and> set (metaRequestIds extra) \<subseteq> set (tableIds tables))"
proof (induction tables arbitrary: s)
  case Nil
  then show ?case by simp
next
  case (Cons table rest)
  obtain s1 e1 where p: "processTable E C input s table = (s1, e1)"
    by (cases "processTable E C input s table")
  from processTable_requests [OF p] obtain x where
    x: "processedTables s1 = Suc (processedTables s)" "requests s1 = requests s @ x"
       "length (dataRequestIds x) \<le> 1" "length (metaRequestIds x) \<le> 1"
       "set (dataRequestIds x) \<subseteq> {optProp table ''@id''}"
       "set (metaRequestIds x) \<subseteq> {optProp table ''@id''}"
    by blast
  show ?case
  proof (cases e1)
    case (Some e)
    with Cons.prems p have "s' = s1" by simp
    with x have "processedTables s' \<le> processedTables s + length (table # rest)
      \<and> requests s' = requests s @ x
      \<and> length (dataRequestIds x) \<le> length (table # rest)
      \<and> length (metaRequestIds x) \<le> length (table # rest)
      \<and> set (dataRequestIds x) \<subseteq> set (tableIds (table # rest))
      \<and> set (metaRequestIds x) \<subseteq> set (tableIds (table # rest))"
      by (auto simp: tableIds_def)
    then show ?thesis by blast
  next
    case None
    with Cons.prems p have "forTables E C input s1 rest = (s', err)" by simp
    from Cons.IH [OF this] obtain y where
      y: "processedTables s' \<le> processedTables s1 + length rest" "requests s' = requests s1 @ y"
         "length (dataRequestIds y) \<le> length rest" "length (metaRequestIds y) \<le> length rest"
         "set (dataRequestIds y) \<subseteq> set (tableIds rest)"
         "set (metaRequestIds y) \<subseteq> set (tableIds rest)"
      by blast
    from x y have "processedTables s' \<le> processedTables s + length (table # rest)
      \<and> requests s' = requests s @ (x @ y)
      \<and> length (dataRequestIds (x @ y)) \<le> length (table # rest)
      \<and> length (metaRequestIds (x @ y)) \<le> length (table # rest)
      \<and> set (dataRequestIds (x @ y)) \<subseteq> set (tableIds (table # rest))
      \<and> set (metaRequestIds (x @ y)) \<subseteq> set (tableIds (table # rest))"
      by (auto simp: tableIds_def dataRequestIds_append metaRequestIds_append)
    then show ?thesis by blast
  qed
qed

lemma runDemoMode_requests:
  "requests (runDemoMode E input s) = requests s"
  "processedTables (runDemoMode E input s) = processedTables s"
  by (simp_all add: runDemoMode_def Let_def)

lemma tryMain_bounded:
  assumes "tryMain E C input initialState = (s, err)"
  shows "length (dataRequestIds (requests s)) \<le> maxItems input
     \<and> length (metaRequestIds (requests s)) \<le> maxItems input
     \<and> processedTables s \<le> maxItems input
     \<and> (case getStatsList C (buildSearchParams input) of
          Inl e \<Rightarrow> dataRequestIds (requests s) = []
        | Inr statsList \<Rightarrow>
            set (dataRequestIds (requests s)) \<subseteq> set (tableIds (take (maxItems input) statsList)))"
proof (cases "getStatsList C (buildSearchParams input)")
  case (Inl e)
  with assms show ?thesis
    by (auto simp: tryMain_def Let_def sendRequest_def initialState_def)
next
  case (Inr statsList)
  let ?s1 = "sendRequest (StatsListRequest (buildSearchParams input)) initialState"
  show ?thesis
  proof (cases "length statsList = 0")
    case True
    with assms Inr show ?thesis
      by (auto simp: tryMain_def Let_def sendRequest_def initialState_def pushData_def)
  next
    case False
    obtain s2 e2 where f: "forTables E C input ?s1 (take (maxItems input) statsList) = (s2, e2)"
      by (cases "forTables E C input ?s1 (take (maxItems input) statsList)")
    from assms Inr False f have s: "requests s = requests s2" "processedTables s = processedTables s2"
      by (auto simp: tryMain_def Let_def pushData_def split: option.splits)
    from forTables_requests [OF f] obtain x where
      x: "processedTables s2 \<le> processedTables ?s1 + length (take (maxItems input) statsList)"
         "requests s2 = requests ?s1 @ x"
         "length (dataRequestIds x) \<le> length (take (maxItems input) statsList)"
         "length (metaRequestIds x) \<le> length (take (maxItems input) statsList)"
         "set (dataRequestIds x) \<subseteq> set (tableIds (take (maxItems input) statsList))"
      by blast
    have r1: "requests ?s1 = [StatsListRequest (buildSearchParams input)]"
      "processedTables ?s1 = 0"
      by (simp_all add: sendRequest_def initialState_def)
    from x s r1 Inr show ?thesis by simp
  qed
qed

lemma processTable_not_nullish:
  assumes "\<not> isNullish table"
  shows "snd (processTable E C input s table) = None"
proof -
  from assms have "getProp table ''@id'' = Inr (optProp table ''@id'')"
    by (rule getProp_not_nullish)
  then show ?thesis
    by (cases "tryTable E C input s table")
       (auto simp: processTable_def split: option.splits)
qed

lemma forTables_not_nullish:
  "list_all (\<lambda>table. \<not> isNullish table) tables \<Longrightarrow> snd (forTables E C input s tables) = None"
proof (induction tables arbitrary: s)
  case Nil
  then show ?case by simp
next
  case (Cons table rest)
  then have "snd (processTable E C input s table) = None"
    by (simp add: processTable_not_nullish)
  then obtain s1 where "processTable E C input s table = (s1, None)"
    by (cases "processTable E C input s table") auto
  with Cons show ?case by simp
qed

lemma demoData_no_type: "item \<in> set (demoData E t) \<Longrightarrow> optProp item ''type'' = Undefined"
  by (auto simp: demoData_def)

lemma demoFiltered_subset: "set (demoFiltered E t input) \<subseteq> set (demoData E t)"
  by (auto simp: demoFiltered_def dest: in_set_takeD)

section \<open>Evaluation of a run on the sample table\<close>

lemma normalize_sample:
  "normalizeStatisticalData sampleEnv t samplePayload md (Str ''0003448738'')
     = Inr ([sampleRecord (now sampleEnv t)], Suc t)"
  by (simp add: normalizeStatisticalData_def try_sample)

lemma id_sample: "getProp sampleTable ''@id'' = Inr (Str ''0003448738'')"
  by (simp add: sampleTable_def)

lemma tryTable_sample:
  assumes "outputFormat input = Structured"
  shows "tryTable sampleEnv sampleCollaborators input s sampleTable
     = (s\<lparr> processedTables := Suc (processedTables s),
           requests := requests s
              @ (if includeMetadata input then [MetaInfoRequest (Str ''0003448738'')] else [])
              @ [StatsDataRequest (Str ''0003448738'')],
           dataset := dataset s @ [sampleRecord (now sampleEnv (tick s))],
           tick := Suc (tick s),
           totalDataPoints := Suc (totalDataPoints s) \<rparr>, None)"
  unfolding tryTable_def Let_def id_sample
  using assms
  by (simp add: sampleCollaborators_def normalize_sample sendRequest_def)

lemma mainLogic_sample:
  assumes "outputFormat input = Structured" "0 < maxItems input"
  shows "dataset (mainLogic sampleEnv sampleCollaborators input True)
     = [sampleRecord (now sampleEnv 0), summaryItem sampleEnv 1 input 1 1]"
proof -
  have f: "processTable sampleEnv sampleCollaborators input s sampleTable
     = (s\<lparr> processedTables := Suc (processedTables s),
           requests := requests s
              @ (if includeMetadata input then [MetaInfoRequest (Str ''0003448738'')] else [])
              @ [StatsDataRequest (Str ''0003448738'')],
           dataset := dataset s @ [sampleRecord (now sampleEnv (tick s))],
           tick := Suc (tick s),
           totalDataPoints := Suc (totalDataPoints s) \<rparr>, None)" for s
    by (simp add: processTable_def tryTable_sample [OF assms(1)])
  have t: "take (maxItems input) [sampleTable] = [sampleTable]"
    using assms(2) by (cases "maxItems input") auto
  have g: "getStatsList sampleCollaborators p = Inr [sampleTable]" for p
    by (simp add: sampleCollaborators_def)
  show ?thesis
    unfolding mainLogic_def tryMain_def Let_def g
    by (simp add: t f sendRequest_def initialState_def pushData_def)
qed

lemma now0: "now sampleEnv 0 = ''2025-01-01T00:00:00.000Z''"
  by (simp add: sampleEnv_def)

section \<open>The bound on the tables processed\<close>

text \<open>
  C5. Whatever the search returns, a run sends at most \<open>maxItems\<close> data requests and at
  most \<open>maxItems\<close> metadata requests and counts at most \<open>maxItems\<close> processed tables; the
  tables it requests are among the first \<open>maxItems\<close> candidates, the list being cut before
  the loop starts.
\<close>

theorem mainLogic_at_most_maxItems:
  "length (dataRequestIds (requests (mainLogic E C input estatAppId))) \<le> maxItems input
   \<and> length (metaRequestIds (requests (mainLogic E C input estatAppId))) \<le> maxItems input
   \<and> processedTables (mainLogic E C input estatAppId) \<le> maxItems input
   \<and> (case getStatsList C (buildSearchParams input) of
        Inl e \<Rightarrow> dataRequestIds (requests (mainLogic E C input estatAppId)) = []
      | Inr statsList \<Rightarrow>
          set (dataRequestIds (requests (mainLogic E C input estatAppId)))
            \<subseteq> set (tableIds (take (maxItems input) statsList)))"
proof (cases estatAppId)
  case False
  then show ?thesis
    by (simp add: mainLogic_def runDemoMode_requests initialState_def split: sum.splits)
next
  case True
  obtain s err where t: "tryMain E C input initialState = (s, err)"
    by (cases "tryMain E C input initialState")
  from True t have "requests (mainLogic E C input estatAppId) = requests s
    \<and> processedTables (mainLogic E C input estatAppId) = processedTables s"
    by (simp add: mainLogic_def runDemoMode_requests pushData_def split: option.splits)
  with tryMain_bounded [OF t] show ?thesis by (simp split: sum.splits)
qed

theorem mainLogic_at_most_maxItems_witness:
  "length (dataRequestIds (requests (mainLogic sampleEnv crowdedCollaborators twoInput True))) \<le> 2
   \<and> length (metaRequestIds (requests (mainLogic sampleEnv crowdedCollaborators twoInput True))) \<le> 2
   \<and> processedTables (mainLogic sampleEnv crowdedCollaborators twoInput True) \<le> 2
   \<and> set (dataRequestIds (requests (mainLogic sampleEnv crowdedCollaborators twoInput True)))
       \<subseteq> {Str ''0003448738''}"
proof -
  have m: "maxItems twoInput = 2" by (simp add: twoInput_def)
  have g: "getStatsList crowdedCollaborators (buildSearchParams twoInput)
    = Inr [sampleTable, sampleTable, sampleTable]"
    by (simp add: crowdedCollaborators_def)
  from mainLogic_at_most_maxItems [of sampleEnv crowdedCollaborators twoInput True]
  show ?thesis by (simp add: m g tableIds_def sampleTable_def)
qed

section \<open>A failed data fetch\<close>








section \<open>A failed metadata fetch\<close>








section \<open>The fallback to sample data\<close>

lemma demoData_fields:
  "map (\<lambda>r. optProp r ''sourceTableId'') (demoData E t) = [Str ''demo_001'', Str ''demo_002'']"
  "map (\<lambda>r. optProp r ''statName'') (demoData E t) = [Str demo_statName1, Str demo_statName2]"
  "map (\<lambda>r. optProp r ''category1'') (demoData E t)
     = [Str demo_category1_1, Str demo_category1_2]"
  "map (\<lambda>r. optProp r ''dataType'') (demoData E t) = [Str ''population'', Str ''labor'']"
  "map (\<lambda>r. optProp r ''value'') (demoData E t)
     = [Num (Finite 125836021), Num (Finite 67230000)]"
  "map (\<lambda>r. optProp r ''extractedAt'') (demoData E t) = [Str (now E t), Str (now E (Suc t))]"
  by (simp_all add: demoData_def)

lemma demoMatches_first:
  "demoMatches E k (demoData E t ! 0)
     = (str_includes (toLowerCase E demo_statName1) k
        \<or> str_includes (toLowerCase E demo_category1_1) k
        \<or> str_includes (toLowerCase E ''population'') k)"
  by (simp add: demoMatches_def lowerField_def demoData_def)

lemma demoMatches_second:
  "demoMatches E k (demoData E t ! 1)
     = (str_includes (toLowerCase E demo_statName2) k
        \<or> str_includes (toLowerCase E demo_category1_2) k
        \<or> str_includes (toLowerCase E ''labor'') k)"
  by (simp add: demoMatches_def lowerField_def demoData_def)

lemma demoFiltered_explicit:
  "demoFiltered E t input
     = take (maxItems input)
         ((if searchKeyword input = []
              \<or> str_includes (toLowerCase E demo_statName1) (toLowerCase E (searchKeyword input))
              \<or> str_includes (toLowerCase E demo_category1_1)
                   (toLowerCase E (searchKeyword input))
              \<or> str_includes (toLowerCase E ''population'')
                   (toLowerCase E (searchKeyword input))
           then [demoData E t ! 0] else [])
          @ (if searchKeyword input = []
                \<or> str_includes (toLowerCase E demo_statName2)
                     (toLowerCase E (searchKeyword input))
                \<or> str_includes (toLowerCase E demo_category1_2)
                     (toLowerCase E (searchKeyword input))
                \<or> str_includes (toLowerCase E ''labor'') (toLowerCase E (searchKeyword input))
             then [demoData E t ! 1] else []))"
proof -
  define a where "a = demoData E t ! 0"
  define b where "b = demoData E t ! 1"
  have n: "demoData E t = [a, b]" by (simp add: a_def b_def demoData_def)
  have ma: "demoMatches E k a
     = (str_includes (toLowerCase E demo_statName1) k
        \<or> str_includes (toLowerCase E demo_category1_1) k
        \<or> str_includes (toLowerCase E ''population'') k)" for k
    unfolding a_def by (rule demoMatches_first)
  have mb: "demoMatches E k b
     = (str_includes (toLowerCase E demo_statName2) k
        \<or> str_includes (toLowerCase E demo_category1_2) k
        \<or> str_includes (toLowerCase E ''labor'') k)" for k
    unfolding b_def by (rule demoMatches_second)
  have inner: "(if searchKeyword input \<noteq> []
        then filter (demoMatches E (toLowerCase E (searchKeyword input))) (demoData E t)
        else demoData E t)
     = (if searchKeyword input = []
              \<or> str_includes (toLowerCase E demo_statName1) (toLowerCase E (searchKeyword input))
              \<or> str_includes (toLowerCase E demo_category1_1)
                   (toLowerCase E (searchKeyword input))
              \<or> str_includes (toLowerCase E ''population'')
                   (toLowerCase E (searchKeyword input))
           then [a] else [])
          @ (if searchKeyword input = []
                \<or> str_includes (toLowerCase E demo_statName2)
                     (toLowerCase E (searchKeyword input))
                \<or> str_includes (toLowerCase E demo_category1_2)
                     (toLowerCase E (searchKeyword input))
                \<or> str_includes (toLowerCase E ''labor'') (toLowerCase E (searchKeyword input))
             then [b] else [])"
    by (simp add: n ma mb)
  show ?thesis
    unfolding demoFiltered_def a_def [symmetric] b_def [symmetric]
    by (simp only: inner)
qed

text \<open>
  C9. When the search fails with an error whose message the test of line 161 accepts, the
  dataset of the run is: the first sample record if there is no search keyword or the
  lower-cased keyword occurs in its lower-cased \<open>statName\<close>, \<open>category1\<close> or \<open>dataType\<close>, then
  the second sample record under the same condition, the two cut to \<open>maxItems\<close>, and then
  one item tagged \<open>demo_summary\<close> that counts them. The sample records are the two fixed
  ones (\<open>demo_001\<close>, a population record, and \<open>demo_002\<close>, a labor record). No item is tagged
  \<open>error\<close> and no table is requested. The keyword is the one that the search request
  carries as \<open>searchWord\<close>.
\<close>

theorem auth_failure_runs_demo:
  assumes "getStatsList C (buildSearchParams input) = Inl e"
    and "isAuthMessage (message e)"
  shows "(\<exists>selected.
            dataset (mainLogic E C input True)
              = selected @ [demoSummary E 2 input (length selected)]
            \<and> selected
              = take (maxItems input)
                  ((if searchKeyword input = []
                       \<or> str_includes (toLowerCase E demo_statName1)
                            (toLowerCase E (searchKeyword input))
                       \<or> str_includes (toLowerCase E demo_category1_1)
                            (toLowerCase E (searchKeyword input))
                       \<or> str_includes (toLowerCase E ''population'')
                            (toLowerCase E (searchKeyword input))
                    then [demoData E 0 ! 0] else [])
                   @ (if searchKeyword input = []
                         \<or> str_includes (toLowerCase E demo_statName2)
                              (toLowerCase E (searchKeyword input))
                         \<or> str_includes (toLowerCase E demo_category1_2)
                              (toLowerCase E (searchKeyword input))
                         \<or> str_includes (toLowerCase E ''labor'')
                              (toLowerCase E (searchKeyword input))
                      then [demoData E 0 ! 1] else []))
            \<and> optProp (demoSummary E 2 input (length selected)) ''type'' = Str ''demo_summary'')
       \<and> length (demoData E 0) = 2
       \<and> map (\<lambda>r. optProp r ''sourceTableId'') (demoData E 0)
           = [Str ''demo_001'', Str ''demo_002'']
       \<and> map (\<lambda>r. optProp r ''statName'') (demoData E 0)
           = [Str demo_statName1, Str demo_statName2]
       \<and> map (\<lambda>r. optProp r ''category1'') (demoData E 0)
           = [Str demo_category1_1, Str demo_category1_2]
       \<and> map (\<lambda>r. optProp r ''dataType'') (demoData E 0) = [Str ''population'', Str ''labor'']
       \<and> map (\<lambda>r. optProp r ''value'') (demoData E 0)
           = [Num (Finite 125836021), Num (Finite 67230000)]
       \<and> map (\<lambda>r. optProp r ''extractedAt'') (demoData E 0) = [Str (now E 0), Str (now E 1)]
       \<and> list_all (\<lambda>item. optProp item ''type'' \<noteq> Str ''error'')
           (dataset (mainLogic E C input True))
       \<and> requests (mainLogic E C input True) = [StatsListRequest (buildSearchParams input)]
       \<and> (searchKeyword input \<noteq> []
            \<longrightarrow> optProp (buildSearchParams input) ''searchWord'' = Str (searchKeyword input))"
proof -
  have t: "tryMain E C input initialState
    = (sendRequest (StatsListRequest (buildSearchParams input)) initialState, Some e)"
    using assms(1) by (simp add: tryMain_def Let_def)
  have d: "dataset (mainLogic E C input True)
           = demoFiltered E 0 input @ [demoSummary E 2 input (length (demoFiltered E 0 input))]"
    unfolding mainLogic_def t using assms(2)
    by (simp add: runDemoMode_def Let_def sendRequest_def initialState_def numeral_2_eq_2)
  have r: "requests (mainLogic E C input True) = [StatsListRequest (buildSearchParams input)]"
    unfolding mainLogic_def t using assms(2)
    by (simp add: runDemoMode_requests sendRequest_def initialState_def)
  have s: "optProp (demoSummary E 2 input (length (demoFiltered E 0 input))) ''type''
           = Str ''demo_summary''"
    by (simp add: demoSummary_def)
  have n: "list_all (\<lambda>item. optProp item ''type'' \<noteq> Str ''error'')
           (dataset (mainLogic E C input True))"
    unfolding d using demoFiltered_subset [of E 0 input] s
    by (auto simp: list_all_iff dest!: subsetD dest: demoData_no_type)
  have k: "searchKeyword input \<noteq> []
            \<longrightarrow> optProp (buildSearchParams input) ''searchWord'' = Str (searchKeyword input)"
    by (simp add: buildSearchParams_def)
  have l: "length (demoData E 0) = 2" by (simp add: demoData_def)
  note f = demoFiltered_explicit [of E 0 input]
  note m = demoData_fields [of E 0]
  have x: "\<exists>selected.
            dataset (mainLogic E C input True)
              = selected @ [demoSummary E 2 input (length selected)]
            \<and> selected
              = take (maxItems input)
                  ((if searchKeyword input = []
                       \<or> str_includes (toLowerCase E demo_statName1)
                            (toLowerCase E (searchKeyword input))
                       \<or> str_includes (toLowerCase E demo_category1_1)
                            (toLowerCase E (searchKeyword input))
                       \<or> str_includes (toLowerCase E ''population'')
                            (toLowerCase E (searchKeyword input))
                    then [demoData E 0 ! 0] else [])
                   @ (if searchKeyword input = []
                         \<or> str_includes (toLowerCase E demo_statName2)
                              (toLowerCase E (searchKeyword input))
                         \<or> str_includes (toLowerCase E demo_category1_2)
                              (toLowerCase E (searchKeyword input))
                         \<or> str_includes (toLowerCase E ''labor'')
                              (toLowerCase E (searchKeyword input))
                      then [demoData E 0 ! 1] else []))
            \<and> optProp (demoSummary E 2 input (length selected)) ''type'' = Str ''demo_summary''"
    using d f s by blast
  have m6: "map (\<lambda>r. optProp r ''extractedAt'') (demoData E 0) = [Str (now E 0), Str (now E 1)]"
    using m(6) by simp
  from x l m(1-5) m6 n r k show ?thesis by blast
qed

lemma lower_labor: "toLowerCase sampleEnv ''Labor'' = ''labor''"
  by (simp add: sampleEnv_def asciiLower_def)

lemma lower_words:
  "toLowerCase sampleEnv ''population'' = ''population''"
  "toLowerCase sampleEnv ''labor'' = ''labor''"
  by (simp_all add: sampleEnv_def asciiLower_def)

lemma lower_demo:
  "toLowerCase sampleEnv demo_statName1 = demo_statName1"
  "toLowerCase sampleEnv demo_category1_1 = demo_category1_1"
  "toLowerCase sampleEnv demo_statName2 = demo_statName2"
  "toLowerCase sampleEnv demo_category1_2 = demo_category1_2"
  by (simp_all add: sampleEnv_def asciiLower_def demo_statName1_def demo_category1_1_def
      demo_statName2_def demo_category1_2_def)

lemma labor_hits:
  "\<not> str_includes demo_statName1 ''labor''"
  "\<not> str_includes demo_category1_1 ''labor''"
  "\<not> str_includes ''population'' ''labor''"
  "str_includes ''labor'' ''labor''"
  by (simp_all add: startsWith_def demo_statName1_def demo_category1_1_def)

theorem auth_failure_runs_demo_witness:
  "getStatsList offlineCollaborators (buildSearchParams laborInput) = Inl forbidden
   \<and> getStatsList offlineCollaborators (buildSearchParams oneInput) = Inl forbidden
   \<and> isAuthMessage (message forbidden)
   \<and> dataset (mainLogic sampleEnv offlineCollaborators laborInput True)
       = [demoData sampleEnv 0 ! 1, demoSummary sampleEnv 2 laborInput 1]
   \<and> optProp (demoData sampleEnv 0 ! 1) ''sourceTableId'' = Str ''demo_002''
   \<and> dataset (mainLogic sampleEnv offlineCollaborators oneInput True)
       = [demoData sampleEnv 0 ! 0, demoSummary sampleEnv 2 oneInput 1]
   \<and> optProp (demoData sampleEnv 0 ! 0) ''sourceTableId'' = Str ''demo_001''"
proof -
  have a: "getStatsList offlineCollaborators (buildSearchParams laborInput) = Inl forbidden"
    "getStatsList offlineCollaborators (buildSearchParams oneInput) = Inl forbidden"
    by (simp_all add: offlineCollaborators_def)
  have b: "isAuthMessage (message forbidden)"
    by (simp add: isAuthMessage_def forbidden_def startsWith_def)
  have i: "searchKeyword laborInput = ''Labor''" "maxItems laborInput = 10"
    "searchKeyword oneInput = []" "maxItems oneInput = 1"
    by (simp_all add: laborInput_def oneInput_def sampleInput_def)
  from auth_failure_runs_demo [OF a(1) b, of sampleEnv]
  have x: "dataset (mainLogic sampleEnv offlineCollaborators laborInput True)
       = [demoData sampleEnv 0 ! 1, demoSummary sampleEnv 2 laborInput 1]"
    unfolding i lower_labor lower_words lower_demo
    using labor_hits by simp
  from auth_failure_runs_demo [OF a(1) b, of sampleEnv]
  have m: "map (\<lambda>r. optProp r ''sourceTableId'') (demoData sampleEnv 0)
           = [Str ''demo_001'', Str ''demo_002'']"
    by blast
  have l: "length (demoData sampleEnv 0) = 2" by (simp add: demoData_def)
  have ids: "optProp (demoData sampleEnv 0 ! 1) ''sourceTableId'' = Str ''demo_002''"
    "optProp (demoData sampleEnv 0 ! 0) ''sourceTableId'' = Str ''demo_001''"
    using arg_cong [OF m, of "\<lambda>xs. xs ! 1"] arg_cong [OF m, of "\<lambda>xs. xs ! 0"] l
    by simp_all
  from auth_failure_runs_demo [OF a(2) b, of sampleEnv]
  have y: "dataset (mainLogic sampleEnv offlineCollaborators oneInput True)
       = [demoData sampleEnv 0 ! 0, demoSummary sampleEnv 2 oneInput 1]"
    unfolding i by simp
  from a b x y ids show ?thesis by blast
qed

section \<open>The metadata field of the records\<close>

text \<open>
  C10 at a failing input: metadata inclusion is not requested, and the record emitted for
  the sample row still carries its \<open>metadata\<close> object.
\<close>

theorem metadata_emitted_without_request:
  "\<not> includeMetadata plainInput
   \<and> dataset (mainLogic sampleEnv sampleCollaborators plainInput True)
       = [sampleRecord ''2025-01-01T00:00:00.000Z'', summaryItem sampleEnv 1 plainInput 1 1]
   \<and> optProp (sampleRecord ''2025-01-01T00:00:00.000Z'') ''metadata''
       = Obj [(''tableTitle'', Str ''Population Census''),
              (''categories'', Obj [(''area'', Str demo_zenkoku)]),
              (''originalAttributes'', sampleRow)]"
proof -
  have a: "\<not> includeMetadata plainInput" "outputFormat plainInput = Structured"
    "0 < maxItems plainInput"
    by (simp_all add: plainInput_def sampleInput_def)
  have d: "optProp (sampleRecord ''2025-01-01T00:00:00.000Z'') ''metadata''
       = Obj [(''tableTitle'', Str ''Population Census''),
              (''categories'', Obj [(''area'', Str demo_zenkoku)]),
              (''originalAttributes'', sampleRow)]"
    by (simp add: sampleRecord_def)
  from mainLogic_sample [OF a(2,3)] a(1) d show ?thesis by (simp add: now0)
qed

end
